theory Spec2Isabelle
  imports Main
begin

section \<open>The sign-up page and the dashboard of the carpool client\<close>

text \<open>
  A shallow embedding of \<^verbatim>\<open>src/app/dashboard/page.tsx\<close>, which holds two React
  components: \<^verbatim>\<open>Dashboard\<close> and \<^verbatim>\<open>SignUpPage\<close> (with its \<^verbatim>\<open>ProfileForm\<close>).

  The component state (the \<^verbatim>\<open>useState\<close> cells) is a record. Everything outside the
  component is a second record, the world: the global \<^verbatim>\<open>window.recaptchaVerifier\<close>
  and the trace of calls made to the collaborators (the reCAPTCHA widget, the identity
  provider, the HTTP API, the router, the DOM event). The collaborators are not part of
  the sources (\<^verbatim>\<open>auth\<close> and \<^verbatim>\<open>RecaptchaVerifier\<close> come from \<^verbatim>\<open>lib/firebase\<close>, the rest
  from Firebase, Next.js and the browser): what a collaborator answers is an argument of
  the handler, so every theorem holds for every answer.

  Each handler is run to completion from the state it was invoked in; the model has no
  event arriving while a request is in flight. Console output is not modelled.
\<close>

subsection \<open>Values of the collaborators\<close>

text \<open>A thrown or rejected error, as the handlers read it: its \<^verbatim>\<open>message\<close>.\<close>

type_synonym js_error = string

datatype 'a outcome = Returns 'a | Throws js_error

text \<open>
  Objects of the Firebase SDK are known by identity only: the n-th object built by
  \<^verbatim>\<open>new RecaptchaVerifier\<close>, and the handle a resolved
  \<^verbatim>\<open>signInWithPhoneNumber\<close> returns.
\<close>

type_synonym RecaptchaVerifier = nat
type_synonym ConfirmationResult = nat

record FormData =
  name :: string
  email :: string
  address :: string
  vehicle :: string
  kids :: string

text \<open>\<^verbatim>\<open>UserProfile\<close> of the dashboard has the same five string fields.\<close>

type_synonym UserProfile = FormData

datatype effect =
    PreventDefault
  | RecaptchaClear RecaptchaVerifier
  | RecaptchaNew RecaptchaVerifier
  | SignInWithPhoneNumber string "RecaptchaVerifier option"
  | Confirm ConfirmationResult string
  | GetIdToken
  | Fetch string string FormData
  | RouterPush string
  | SignOut

text \<open>
  \<open>recaptchaVerifier\<close> is \<^verbatim>\<open>window.recaptchaVerifier\<close> (\<open>None\<close> for
  \<^verbatim>\<open>undefined\<close>), \<open>fresh\<close> the number of verifiers built so far, which names the next
  one, and \<open>trace\<close> the calls made, oldest first.
\<close>

record world =
  recaptchaVerifier :: "RecaptchaVerifier option"
  fresh :: nat
  trace :: "effect list"

definition emit :: "effect \<Rightarrow> world \<Rightarrow> world" where
  "emit e w = w\<lparr>trace := trace w @ [e]\<rparr>"

definition initial_world :: world where
  "initial_world = \<lparr>recaptchaVerifier = None, fresh = 0, trace = []\<rparr>"

subsection \<open>State of \<^verbatim>\<open>SignUpPage\<close>\<close>

datatype step = StepPhone | StepCode | StepProfile

record SignUpPage =
  phone :: string
  code :: string
  confirmation :: "ConfirmationResult option"
  step :: step
  idToken :: "string option"
  loading :: bool
  error :: "string option"

text \<open>The initial values of the \<^verbatim>\<open>useState\<close> cells (lines 168-174).\<close>

definition initial_state :: SignUpPage where
  "initial_state =
     \<lparr>phone = [], code = [], confirmation = None, step = StepPhone,
      idToken = None, loading = False, error = None\<rparr>"

subsection \<open>\<^verbatim>\<open>setupRecaptcha\<close> and the unmount cleanup\<close>

text \<open>
  \<^verbatim>\<open>setupRecaptcha\<close> (lines 186-224). The first argument is what
  \<^verbatim>\<open>window.recaptchaVerifier.clear()\<close> does if it is called, the second what the
  constructor does. \<open>RecaptchaClear\<close> and \<open>RecaptchaNew\<close> in the trace stand for a
  \<^verbatim>\<open>clear()\<close> and a construction that returned, so one that throws leaves no entry;
  the \<^verbatim>\<open>catch\<close> of the source rethrows.
\<close>

definition newVerifier :: "unit outcome \<Rightarrow> world \<Rightarrow> world \<times> RecaptchaVerifier outcome" where
  "newVerifier new_outcome w =
     (case new_outcome of
        Throws m \<Rightarrow> (w, Throws m)
      | Returns _ \<Rightarrow>
          (let verifier = fresh w
           in (emit (RecaptchaNew verifier)
                 (w\<lparr>recaptchaVerifier := Some verifier, fresh := Suc verifier\<rparr>),
               Returns verifier)))"

definition setupRecaptcha ::
  "unit outcome \<Rightarrow> unit outcome \<Rightarrow> world \<Rightarrow> world \<times> RecaptchaVerifier outcome" where
  "setupRecaptcha clear_outcome new_outcome w =
     (case recaptchaVerifier w of
        None \<Rightarrow> newVerifier new_outcome w
      | Some old \<Rightarrow>
          (case clear_outcome of
             Throws m \<Rightarrow> (w, Throws m)
           | Returns _ \<Rightarrow> newVerifier new_outcome (emit (RecaptchaClear old) w)))"

text \<open>
  The cleanup returned by the \<^verbatim>\<open>useEffect\<close> of lines 177-184. The argument is what
  \<^verbatim>\<open>clear()\<close> does if it is called; nothing follows the call, so one that throws
  leaves the world as it was.
\<close>

definition cleanup :: "unit outcome \<Rightarrow> world \<Rightarrow> world" where
  "cleanup clear_outcome w =
     (case recaptchaVerifier w of
        None \<Rightarrow> w
      | Some v \<Rightarrow>
          (case clear_outcome of
             Throws m \<Rightarrow> w
           | Returns _ \<Rightarrow> emit (RecaptchaClear v) w))"

text \<open>
  The \<^verbatim>\<open>expired-callback\<close> and the \<^verbatim>\<open>error-callback\<close> handed to the
  constructor (lines 204-211): both only drop the global reference.
\<close>

definition expiredCallback :: "world \<Rightarrow> world" where
  "expiredCallback w = w\<lparr>recaptchaVerifier := None\<rparr>"

definition errorCallback :: "world \<Rightarrow> world" where
  "errorCallback w = w\<lparr>recaptchaVerifier := None\<rparr>"

text \<open>
  The widget instances alive after a trace: those built and not cleared since.
\<close>

fun alive_step :: "RecaptchaVerifier list \<Rightarrow> effect \<Rightarrow> RecaptchaVerifier list" where
  "alive_step vs (RecaptchaNew v) = vs @ [v]"
| "alive_step vs (RecaptchaClear v) = removeAll v vs"
| "alive_step vs _ = vs"

definition alive :: "effect list \<Rightarrow> RecaptchaVerifier list" where
  "alive tr = foldl alive_step [] tr"

text \<open>
  The discipline \<^verbatim>\<open>setupRecaptcha\<close> and the cleanup rely on: no instance is alive
  but the one \<^verbatim>\<open>window.recaptchaVerifier\<close> refers to.
\<close>

definition only_stored_alive :: "world \<Rightarrow> bool" where
  "only_stored_alive w =
     (case recaptchaVerifier w of
        None \<Rightarrow> alive (trace w) = []
      | Some v \<Rightarrow> alive (trace w) = [] \<or> alive (trace w) = [v])"

subsection \<open>\<^verbatim>\<open>sendCode\<close>\<close>

definition startsWith :: "string \<Rightarrow> string \<Rightarrow> bool" where
  "startsWith s p = (take (length p) s = p)"

text \<open>Line 235.\<close>

definition formattedPhone :: "string \<Rightarrow> string" where
  "formattedPhone p = (if startsWith p ''+'' then p else ''+1'' @ p)"

record sendCode_env =
  clear_outcome :: "unit outcome"
  new_outcome :: "unit outcome"
  signIn_outcome :: "ConfirmationResult outcome"

text \<open>The message of line 251; an empty \<^verbatim>\<open>err.message\<close> is falsy.\<close>

definition sendCode_failure :: "js_error \<Rightarrow> string" where
  "sendCode_failure m =
     ''Failed to send verification code: '' @ (if m \<noteq> [] then m else ''Unknown error'')"

text \<open>\<^verbatim>\<open>sendCode\<close> (lines 226-255).\<close>

definition sendCode :: "sendCode_env \<Rightarrow> SignUpPage \<times> world \<Rightarrow> SignUpPage \<times> world" where
  "sendCode env sw =
     (case sw of (s, w) \<Rightarrow>
        (case setupRecaptcha (clear_outcome env) (new_outcome env) (emit PreventDefault w) of
           (w1, Throws m) \<Rightarrow>
             (s\<lparr>loading := False, error := Some (sendCode_failure m)\<rparr>, w1)
         | (w1, Returns _) \<Rightarrow>
             (let appVerifier = recaptchaVerifier w1;
                  w2 = emit (SignInWithPhoneNumber (formattedPhone (phone s)) appVerifier) w1
              in case signIn_outcome env of
                   Throws m \<Rightarrow>
                     (s\<lparr>loading := False, error := Some (sendCode_failure m)\<rparr>, w2)
                 | Returns result \<Rightarrow>
                     (s\<lparr>confirmation := Some result, step := StepCode,
                        loading := False, error := None\<rparr>, w2))))"

subsection \<open>\<^verbatim>\<open>verifyCode\<close>\<close>

record verifyCode_env =
  confirm_outcome :: "unit outcome"
  getIdToken_outcome :: "string outcome"

definition verifyCode_failure :: string where
  "verifyCode_failure = ''Invalid verification code. Please try again.''"

text \<open>\<^verbatim>\<open>verifyCode\<close> (lines 257-275).\<close>

definition verifyCode :: "verifyCode_env \<Rightarrow> SignUpPage \<times> world \<Rightarrow> SignUpPage \<times> world" where
  "verifyCode env sw =
     (case sw of (s, w) \<Rightarrow>
        (let w0 = emit PreventDefault w
         in case confirmation s of
              None \<Rightarrow> (s, w0)
            | Some c \<Rightarrow>
                (let w1 = emit (Confirm c (code s)) w0
                 in case confirm_outcome env of
                      Throws m \<Rightarrow>
                        (s\<lparr>loading := False, error := Some verifyCode_failure\<rparr>, w1)
                    | Returns _ \<Rightarrow>
                        (let w2 = emit GetIdToken w1
                         in case getIdToken_outcome env of
                              Throws m \<Rightarrow>
                                (s\<lparr>loading := False, error := Some verifyCode_failure\<rparr>, w2)
                            | Returns token \<Rightarrow>
                                (s\<lparr>idToken := Some token, step := StepProfile,
                                   loading := False, error := None\<rparr>, w2)))))"

subsection \<open>The response of the profile endpoint\<close>

text \<open>
  What \<^verbatim>\<open>response.json()\<close> resolves to. The handler can observe two things of a
  number: whether it is zero, and the text \<^verbatim>\<open>String\<close> prints for it. So a number is
  carried as that text (\<^verbatim>\<open>0\<close> for zero, \<^verbatim>\<open>1e+21\<close>, \<^verbatim>\<open>0.5\<close>); no arithmetic on
  doubles is modelled. An object is the list of its properties.
\<close>

datatype json =
    JNull
  | JBool bool
  | JNum string
  | JStr string
  | JArr "json list"
  | JObj "(string \<times> json) list"

record response =
  ok :: bool
  json_outcome :: "json outcome"

datatype fetch_outcome = FetchRejects js_error | FetchResolves response

text \<open>JavaScript truthiness of a parsed value.\<close>

fun truthy :: "json \<Rightarrow> bool" where
  "truthy JNull = False"
| "truthy (JBool b) = b"
| "truthy (JNum t) = (t \<noteq> ''0'')"
| "truthy (JStr s) = (s \<noteq> [])"
| "truthy (JArr _) = True"
| "truthy (JObj _) = True"

text \<open>
  \<^verbatim>\<open>data.detail\<close>: a \<^verbatim>\<open>TypeError\<close> on \<^verbatim>\<open>null\<close> (the message is V8's), the
  property of an object when it has one, \<^verbatim>\<open>undefined\<close> (\<open>None\<close>) otherwise.
\<close>

fun get_detail :: "json \<Rightarrow> json option outcome" where
  "get_detail JNull = Throws ''Cannot read properties of null (reading 'detail')''"
| "get_detail (JObj props) = Returns (map_of props ''detail'')"
| "get_detail _ = Returns None"

text \<open>\<^verbatim>\<open>Array.prototype.join\<close> with a comma.\<close>

fun join_comma :: "string list \<Rightarrow> string" where
  "join_comma [] = []"
| "join_comma [x] = x"
| "join_comma (x # y # ys) = x @ '','' @ join_comma (y # ys)"

text \<open>
  \<^verbatim>\<open>String(v)\<close>, which \<^verbatim>\<open>new Error(v)\<close> applies to its argument to make the message.
  Inside an array \<^verbatim>\<open>null\<close> prints as the empty string.
\<close>

fun js_String :: "json \<Rightarrow> string" where
  "js_String JNull = ''null''"
| "js_String (JBool b) = (if b then ''true'' else ''false'')"
| "js_String (JNum t) = t"
| "js_String (JStr s) = s"
| "js_String (JArr xs) = join_comma (map (\<lambda>x. if x = JNull then [] else js_String x) xs)"
| "js_String (JObj _) = ''[object Object]''"

subsection \<open>\<^verbatim>\<open>handleProfileSubmit\<close>\<close>

definition profile_url :: string where
  "profile_url = ''https://carpool-backend-ymsm.onrender.com/submit-profile''"

definition no_token_message :: string where
  "no_token_message = ''No authentication token found. Please complete phone verification.''"

text \<open>
  The \<^verbatim>\<open>try\<close> block of \<^verbatim>\<open>handleProfileSubmit\<close> (lines 279-304): the world it leaves
  and whether it threw. \<^verbatim>\<open>!idToken\<close> holds for \<^verbatim>\<open>null\<close> and for the empty string.
\<close>

definition profile_try ::
  "FormData \<Rightarrow> fetch_outcome \<Rightarrow> string option \<Rightarrow> world \<Rightarrow> world \<times> unit outcome" where
  "profile_try formData fetched tok w =
     (case tok of
        None \<Rightarrow> (w, Throws no_token_message)
      | Some t \<Rightarrow>
          if t = [] then (w, Throws no_token_message)
          else
            (let w1 = emit (Fetch profile_url (''Bearer '' @ t) formData) w
             in case fetched of
                  FetchRejects m \<Rightarrow> (w1, Throws m)
                | FetchResolves resp \<Rightarrow>
                    (case json_outcome resp of
                       Throws m \<Rightarrow> (w1, Throws m)
                     | Returns data \<Rightarrow>
                         if \<not> ok resp then
                           (case get_detail data of
                              Throws m \<Rightarrow> (w1, Throws m)
                            | Returns d \<Rightarrow>
                                (w1, Throws (js_String
                                   (case d of
                                      None \<Rightarrow> JStr ''Failed to save profile''
                                    | Some v \<Rightarrow>
                                        if truthy v then v
                                        else JStr ''Failed to save profile''))))
                         else (emit (RouterPush ''/dashboard'') w1, Returns ()))))"

text \<open>\<^verbatim>\<open>handleProfileSubmit\<close> (lines 277-311), with its \<^verbatim>\<open>catch\<close> and \<^verbatim>\<open>finally\<close>.\<close>

definition handleProfileSubmit ::
  "FormData \<Rightarrow> fetch_outcome \<Rightarrow> SignUpPage \<times> world \<Rightarrow> SignUpPage \<times> world" where
  "handleProfileSubmit formData fetched sw =
     (case sw of (s, w) \<Rightarrow>
        (case profile_try formData fetched (idToken s) w of
           (w1, Throws m) \<Rightarrow>
             (s\<lparr>loading := False,
                error := Some (if m \<noteq> [] then m
                               else ''Failed to save profile. Please try again.'')\<rparr>, w1)
         | (w1, Returns _) \<Rightarrow> (s\<lparr>loading := False, error := None\<rparr>, w1)))"

subsection \<open>The rendered page and its events\<close>

text \<open>The \<^verbatim>\<open>onChange\<close> of both inputs: \<^verbatim>\<open>e.target.value.replace(/\D/g, '')\<close>.\<close>

definition is_digit :: "char \<Rightarrow> bool" where
  "is_digit c = (c \<in> set ''0123456789'')"

definition strip_non_digits :: "string \<Rightarrow> string" where
  "strip_non_digits v = filter is_digit v"

definition setPhone_onChange :: "string \<Rightarrow> SignUpPage \<Rightarrow> SignUpPage" where
  "setPhone_onChange v s = s\<lparr>phone := strip_non_digits v\<rparr>"

definition setCode_onChange :: "string \<Rightarrow> SignUpPage \<Rightarrow> SignUpPage" where
  "setCode_onChange v s = s\<lparr>code := strip_non_digits v\<rparr>"

text \<open>The \<^verbatim>\<open>onClick\<close> of the "Change number" button (line 401).\<close>

definition changeNumber :: "SignUpPage \<Rightarrow> SignUpPage" where
  "changeNumber s = s\<lparr>step := StepPhone\<rparr>"

text \<open>\<^verbatim>\<open>handleSubmit\<close> of \<^verbatim>\<open>ProfileForm\<close> (lines 449-452).\<close>

definition handleSubmit ::
  "FormData \<Rightarrow> fetch_outcome \<Rightarrow> SignUpPage \<times> world \<Rightarrow> SignUpPage \<times> world" where
  "handleSubmit form fetched sw =
     (case sw of (s, w) \<Rightarrow> handleProfileSubmit form fetched (s, emit PreventDefault w))"

text \<open>
  What the user and the widget can do to the page (lines 313-429 and 470-501). A form is on the page
  only in its own step. The browser sends a form's submit event only when the submit
  button is enabled (\<^verbatim>\<open>disabled={loading}\<close>) and no \<^verbatim>\<open>required\<close> input is empty;
  the checks of \<^verbatim>\<open>type="email"\<close> and \<^verbatim>\<open>type="number"\<close> in the profile form are not
  modelled, so the model admits every submission a browser does. A widget calls back only
  while one is alive. \<open>Remount\<close> is the page leaving the screen (the cleanup runs, and
  the argument is what its \<^verbatim>\<open>clear()\<close> does) and coming back with fresh
  \<^verbatim>\<open>useState\<close> cells; \<open>window\<close> outlives it.
\<close>

datatype event =
    PhoneInput string
  | CodeInput string
  | PhoneFormSubmit sendCode_env
  | CodeFormSubmit verifyCode_env
  | ChangeNumberClick
  | ProfileFormSubmit FormData fetch_outcome
  | RecaptchaExpired
  | RecaptchaError
  | Remount "unit outcome"

fun dispatch :: "SignUpPage \<times> world \<Rightarrow> event \<Rightarrow> SignUpPage \<times> world" where
  "dispatch (s, w) (PhoneInput v) =
     (if step s = StepPhone then (setPhone_onChange v s, w) else (s, w))"
| "dispatch (s, w) (CodeInput v) =
     (if step s = StepCode then (setCode_onChange v s, w) else (s, w))"
| "dispatch (s, w) (PhoneFormSubmit env) =
     (if step s = StepPhone \<and> \<not> loading s \<and> phone s \<noteq> [] then sendCode env (s, w)
      else (s, w))"
| "dispatch (s, w) (CodeFormSubmit env) =
     (if step s = StepCode \<and> \<not> loading s \<and> code s \<noteq> [] then verifyCode env (s, w)
      else (s, w))"
| "dispatch (s, w) ChangeNumberClick =
     (if step s = StepCode then (changeNumber s, w) else (s, w))"
| "dispatch (s, w) (ProfileFormSubmit formData fetched) =
     (if step s = StepProfile \<and> \<not> loading s \<and> name formData \<noteq> [] \<and> address formData \<noteq> []
      then handleSubmit formData fetched (s, w)
      else (s, w))"
| "dispatch (s, w) RecaptchaExpired =
     (if alive (trace w) \<noteq> [] then (s, expiredCallback w) else (s, w))"
| "dispatch (s, w) RecaptchaError =
     (if alive (trace w) \<noteq> [] then (s, errorCallback w) else (s, w))"
| "dispatch (s, w) (Remount cleared) = (initial_state, cleanup cleared w)"

definition run :: "event list \<Rightarrow> SignUpPage \<times> world \<Rightarrow> SignUpPage \<times> world" where
  "run evs sw = foldl dispatch sw evs"

subsection \<open>\<^verbatim>\<open>Dashboard\<close>\<close>

record Dashboard =
  userProfile :: "UserProfile option"
  dash_loading :: bool
  dash_error :: "string option"

definition initial_dashboard :: Dashboard where
  "initial_dashboard = \<lparr>userProfile = None, dash_loading = True, dash_error = None\<rparr>"

text \<open>The \<^verbatim>\<open>user\<close> the provider reports: its \<^verbatim>\<open>email\<close>, which may be \<^verbatim>\<open>null\<close>.\<close>

record User =
  user_email :: "string option"

text \<open>The listener given to \<^verbatim>\<open>onAuthStateChanged\<close> (lines 24-46).\<close>

definition authStateChanged ::
  "User option \<Rightarrow> Dashboard \<times> effect list \<Rightarrow> Dashboard \<times> effect list" where
  "authStateChanged user dt =
     (case dt of (d, tr) \<Rightarrow>
        (case user of
           None \<Rightarrow> (d, tr @ [RouterPush ''/signin''])
         | Some u \<Rightarrow>
             (d\<lparr>userProfile :=
                  Some \<lparr>name = ''John Doe'',
                        email = (case user_email u of None \<Rightarrow> [] | Some e \<Rightarrow> e),
                        address = ''123 Main St'',
                        vehicle = ''Toyota Camry'',
                        kids = ''2''\<rparr>,
                dash_loading := False\<rparr>, tr)))"

text \<open>\<^verbatim>\<open>handleSignOut\<close> (lines 51-59); the argument is what \<^verbatim>\<open>signOut(auth)\<close> does.\<close>

definition handleSignOut ::
  "unit outcome \<Rightarrow> Dashboard \<times> effect list \<Rightarrow> Dashboard \<times> effect list" where
  "handleSignOut signOut_outcome dt =
     (case dt of (d, tr) \<Rightarrow>
        (case signOut_outcome of
           Returns _ \<Rightarrow> (d, tr @ [SignOut, RouterPush ''/''])
         | Throws m \<Rightarrow> (d\<lparr>dash_error := Some ''Failed to sign out''\<rparr>, tr @ [SignOut])))"

text \<open>
  What the dashboard shows (lines 61-144): the spinner, the error panel (the message and
  the Retry button), or the page with the Sign Out button and the profile.
\<close>

datatype view = Spinner | ErrorPanel string | ProfilePage "UserProfile option"

definition render :: "Dashboard \<Rightarrow> view" where
  "render d =
     (if dash_loading d then Spinner
      else case dash_error d of
             None \<Rightarrow> ProfilePage (userProfile d)
           | Some e \<Rightarrow> if e \<noteq> [] then ErrorPanel e else ProfilePage (userProfile d))"

subsection \<open>Concrete inputs\<close>

definition issuing_env :: sendCode_env where
  "issuing_env =
     \<lparr>clear_outcome = Returns (), new_outcome = Returns (), signIn_outcome = Returns 7\<rparr>"

definition rejecting_env :: sendCode_env where
  "rejecting_env =
     \<lparr>clear_outcome = Returns (), new_outcome = Returns (),
      signIn_outcome = Throws ''Firebase: Error (auth/network-request-failed).''\<rparr>"

definition confirming_env :: verifyCode_env where
  "confirming_env = \<lparr>confirm_outcome = Returns (), getIdToken_outcome = Returns ''token-1''\<rparr>"

definition jane :: FormData where
  "jane = \<lparr>name = ''Jane'', email = [], address = ''1 Elm St'', vehicle = [], kids = []\<rparr>"

text \<open>The page after a number was typed and a challenge issued for it.\<close>

definition code_step_page :: "SignUpPage \<times> world" where
  "code_step_page =
     run [PhoneInput ''9876543210'', PhoneFormSubmit issuing_env] (initial_state, initial_world)"

text \<open>The page after the code was confirmed as well.\<close>

definition profile_step_page :: "SignUpPage \<times> world" where
  "profile_step_page =
     run [CodeInput ''123456'', CodeFormSubmit confirming_env] code_step_page"

text \<open>A gateway's answer: status 502 with an HTML body, which is not JSON.\<close>

definition bad_gateway :: response where
  "bad_gateway =
     \<lparr>ok = False, json_outcome = Throws ''Unexpected token < in JSON at position 0''\<rparr>"

definition invalid_token_response :: response where
  "invalid_token_response =
     \<lparr>ok = False, json_outcome = Returns (JObj [(''detail'', JStr ''Invalid token'')])\<rparr>"

text \<open>
  A first attempt that the provider rejects, the widget reporting an error, and a second
  attempt.
\<close>

definition retry_after_widget_error :: "event list" where
  "retry_after_widget_error =
     [PhoneInput ''9876543210'', PhoneFormSubmit rejecting_env, RecaptchaError,
      PhoneFormSubmit issuing_env]"

definition signed_in_dashboard :: Dashboard where
  "signed_in_dashboard =
     fst (authStateChanged (Some \<lparr>user_email = None\<rparr>) (initial_dashboard, []))"

section \<open>Properties\<close>

subsection \<open>Evaluating the concrete inputs\<close>

lemmas page_defs =
  run_def sendCode_def verifyCode_def handleProfileSubmit_def profile_try_def
  setupRecaptcha_def newVerifier_def cleanup_def expiredCallback_def errorCallback_def
  emit_def alive_def initial_state_def initial_world_def
  setPhone_onChange_def setCode_onChange_def strip_non_digits_def is_digit_def
  changeNumber_def handleSubmit_def formattedPhone_def startsWith_def sendCode_failure_def
  verifyCode_failure_def no_token_message_def profile_url_def

lemmas input_defs =
  issuing_env_def rejecting_env_def confirming_env_def jane_def bad_gateway_def
  invalid_token_response_def retry_after_widget_error_def

lemma code_step_page_eq:
  "code_step_page =
     (\<lparr>phone = ''9876543210'', code = [], confirmation = Some 7, step = StepCode,
       idToken = None, loading = False, error = None\<rparr>,
      \<lparr>recaptchaVerifier = Some 0, fresh = 1,
       trace = [PreventDefault, RecaptchaNew 0,
                SignInWithPhoneNumber ''+19876543210'' (Some 0)]\<rparr>)"
  by (simp add: code_step_page_def page_defs input_defs)

lemma profile_step_page_eq:
  "profile_step_page =
     (\<lparr>phone = ''9876543210'', code = ''123456'', confirmation = Some 7,
       step = StepProfile, idToken = Some ''token-1'', loading = False, error = None\<rparr>,
      \<lparr>recaptchaVerifier = Some 0, fresh = 1,
       trace = [PreventDefault, RecaptchaNew 0,
                SignInWithPhoneNumber ''+19876543210'' (Some 0),
                PreventDefault, Confirm 7 ''123456'', GetIdToken]\<rparr>)"
  by (simp add: profile_step_page_def code_step_page_eq page_defs input_defs)

subsection \<open>The "Change number" button\<close>

text \<open>
  C1, as the code has it. Clicked in the \<open>code\<close> step, "Change number" puts the flow
  back in the \<open>phone\<close> step and calls no collaborator (the trace is unchanged, so the
  identity provider is not contacted). It changes no other cell of the state: the stored
  confirmation result is kept, not discarded.
\<close>

theorem change_number_returns_to_phone:
  "step s = StepCode \<Longrightarrow>
     dispatch (s, w) ChangeNumberClick = (s\<lparr>step := StepPhone\<rparr>, w) \<and>
     step (fst (dispatch (s, w) ChangeNumberClick)) = StepPhone \<and>
     confirmation (fst (dispatch (s, w) ChangeNumberClick)) = confirmation s \<and>
     trace (snd (dispatch (s, w) ChangeNumberClick)) = trace w"
  by (simp add: changeNumber_def)

theorem change_number_returns_to_phone_witness:
  "step (fst code_step_page) = StepCode \<and>
   step (fst (dispatch code_step_page ChangeNumberClick)) = StepPhone \<and>
   confirmation (fst (dispatch code_step_page ChangeNumberClick)) = Some 7"
  using change_number_returns_to_phone [of "fst code_step_page" "snd code_step_page"]
  by (simp add: code_step_page_eq)

text \<open>
  C1 as the specification states it fails: after a challenge was issued (handle 7) and
  "Change number" was clicked, the stored confirmation result is still there.
\<close>

theorem change_number_keeps_handle_counterexample:
  "step (fst code_step_page) = StepCode \<and>
   confirmation (fst code_step_page) = Some 7 \<and>
   confirmation (fst (dispatch code_step_page ChangeNumberClick)) \<noteq> None"
  by (simp add: code_step_page_eq changeNumber_def)

subsection \<open>Submitting the profile\<close>

text \<open>
  C2. Whenever \<^verbatim>\<open>handleProfileSubmit\<close> runs while \<^verbatim>\<open>idToken\<close> is \<^verbatim>\<open>null\<close>, whatever
  the form holds and whatever the endpoint would have answered, it ends with the
  authentication error as the displayed error and the trace of calls unchanged: no
  request to the profile endpoint is issued (and nothing is navigated to).
\<close>

theorem profile_submit_without_token:
  "idToken s = None \<Longrightarrow>
     handleProfileSubmit formData fetched (s, w) =
       (s\<lparr>loading := False,
          error := Some ''No authentication token found. Please complete phone verification.''\<rparr>,
        w) \<and>
     error (fst (handleProfileSubmit formData fetched (s, w))) =
       Some ''No authentication token found. Please complete phone verification.'' \<and>
     trace (snd (handleProfileSubmit formData fetched (s, w))) = trace w"
  by (simp add: handleProfileSubmit_def profile_try_def no_token_message_def)

theorem profile_submit_without_token_witness:
  "idToken initial_state = None \<and>
   error (fst (handleProfileSubmit jane (FetchResolves invalid_token_response)
                 (initial_state, initial_world))) =
     Some ''No authentication token found. Please complete phone verification.'' \<and>
   trace (snd (handleProfileSubmit jane (FetchResolves invalid_token_response)
                 (initial_state, initial_world))) = []"
  using profile_submit_without_token
          [of initial_state jane "FetchResolves invalid_token_response" initial_world]
  by (simp add: initial_state_def initial_world_def)

text \<open>
  Where the code does what lines 299-301 are written for. When a session token is held and
  the endpoint answers with a non-success status, the step is unchanged (the flow stays
  in \<open>profile\<close>) and the only call made is the request itself: nothing is navigated to.
  If the body parses to a JSON object, the displayed error is its \<^verbatim>\<open>detail\<close> when that
  is a non-empty string, and \<^verbatim>\<open>'Failed to save profile'\<close> when \<^verbatim>\<open>detail\<close> is absent or
  falsy.
\<close>

lemma profile_submit_rejected:
  assumes "idToken s = Some t" and "t \<noteq> []" and "\<not> ok resp"
  shows "step (fst (handleProfileSubmit formData (FetchResolves resp) (s, w))) = step s \<and>
         trace (snd (handleProfileSubmit formData (FetchResolves resp) (s, w))) =
           trace w @ [Fetch profile_url (''Bearer '' @ t) formData] \<and>
         (\<forall>props d. json_outcome resp = Returns (JObj props) \<longrightarrow>
            map_of props ''detail'' = Some (JStr d) \<longrightarrow> d \<noteq> [] \<longrightarrow>
            error (fst (handleProfileSubmit formData (FetchResolves resp) (s, w))) = Some d) \<and>
         (\<forall>props. json_outcome resp = Returns (JObj props) \<longrightarrow>
            map_of props ''detail'' = None \<longrightarrow>
            error (fst (handleProfileSubmit formData (FetchResolves resp) (s, w))) =
              Some ''Failed to save profile'') \<and>
         (\<forall>props v. json_outcome resp = Returns (JObj props) \<longrightarrow>
            map_of props ''detail'' = Some v \<longrightarrow> \<not> truthy v \<longrightarrow>
            error (fst (handleProfileSubmit formData (FetchResolves resp) (s, w))) =
              Some ''Failed to save profile'')"
  using assms
  by (auto simp add: handleProfileSubmit_def profile_try_def emit_def Let_def
           split: outcome.splits option.splits json.splits)

lemma profile_submit_rejected_example:
  "idToken (fst profile_step_page) = Some ''token-1'' \<and> \<not> ok invalid_token_response \<and>
   step (fst (handleProfileSubmit jane (FetchResolves invalid_token_response)
                profile_step_page)) = StepProfile \<and>
   error (fst (handleProfileSubmit jane (FetchResolves invalid_token_response)
                 profile_step_page)) = Some ''Invalid token''"
  using profile_submit_rejected
          [of "fst profile_step_page" "''token-1''" invalid_token_response jane
              "snd profile_step_page"]
  by (simp add: profile_step_page_eq invalid_token_response_def)

text \<open>
  C3 does not hold of the code. The body is parsed at line 297, before \<^verbatim>\<open>response.ok\<close>
  is looked at in line 299. A 502 whose body is not JSON is a non-success response
  without a \<^verbatim>\<open>detail\<close> field: \<^verbatim>\<open>response.json()\<close> rejects, lines 299-301 are never
  reached, and the displayed error is the parser's message, not the fallback string
  \<^verbatim>\<open>'Failed to save profile'\<close>. The flow does stay in the \<open>profile\<close> step, and only the
  request is in the trace.
\<close>

theorem profile_submit_bad_gateway_shows_parser_message:
  "\<not> ok bad_gateway \<and>
   json_outcome bad_gateway = Throws ''Unexpected token < in JSON at position 0'' \<and>
   step (fst (handleProfileSubmit jane (FetchResolves bad_gateway) profile_step_page)) =
     StepProfile \<and>
   trace (snd (handleProfileSubmit jane (FetchResolves bad_gateway) profile_step_page)) =
     trace (snd profile_step_page) @ [Fetch profile_url ''Bearer token-1'' jane] \<and>
   error (fst (handleProfileSubmit jane (FetchResolves bad_gateway) profile_step_page)) =
     Some ''Unexpected token < in JSON at position 0'' \<and>
   error (fst (handleProfileSubmit jane (FetchResolves bad_gateway) profile_step_page)) \<noteq>
     Some ''Failed to save profile''"
  by (simp add: profile_step_page_eq bad_gateway_def page_defs)

text \<open>
  How \<^verbatim>\<open>new Error(data.detail || 'Failed to save profile')\<close> treats a \<^verbatim>\<open>detail\<close> that
  is not a non-empty string: a list of objects is shown as \<^verbatim>\<open>[object Object]\<close>, and an
  empty string is replaced by the fallback.
\<close>

lemma profile_submit_detail_list:
  "error (fst (handleProfileSubmit jane
                 (FetchResolves
                    \<lparr>ok = False,
                     json_outcome =
                       Returns (JObj [(''detail'', JArr [JObj [(''msg'', JStr ''field required'')]])])\<rparr>)
                 profile_step_page)) = Some ''[object Object]''"
  by (simp add: profile_step_page_eq page_defs)

lemma profile_submit_detail_empty:
  "error (fst (handleProfileSubmit jane
                 (FetchResolves \<lparr>ok = False, json_outcome = Returns (JObj [(''detail'', JStr [])])\<rparr>)
                 profile_step_page)) = Some ''Failed to save profile''"
  by (simp add: profile_step_page_eq page_defs)

subsection \<open>Submitting the phone number\<close>

text \<open>
  C4. Once \<^verbatim>\<open>setupRecaptcha\<close> has returned, \<^verbatim>\<open>sendCode\<close> asks the provider for a
  challenge with the normalized number, and the normalization leaves a number that starts
  with \<^verbatim>\<open>+\<close> as it is and puts \<^verbatim>\<open>+1\<close> before any other; \<^verbatim>\<open>9876543210\<close> becomes
  \<^verbatim>\<open>+19876543210\<close>.
\<close>

theorem sendCode_normalizes_phone:
  assumes "setupRecaptcha (clear_outcome env) (new_outcome env) (emit PreventDefault w) =
             (w1, Returns v)"
  shows "trace (snd (sendCode env (s, w))) =
           trace w1 @ [SignInWithPhoneNumber (formattedPhone (phone s)) (recaptchaVerifier w1)] \<and>
         (\<forall>rest. formattedPhone (CHR ''+'' # rest) = CHR ''+'' # rest) \<and>
         (\<forall>c rest. c \<noteq> CHR ''+'' \<longrightarrow> formattedPhone (c # rest) = ''+1'' @ c # rest) \<and>
         formattedPhone [] = ''+1'' \<and>
         formattedPhone ''9876543210'' = ''+19876543210''"
  using assms
  by (auto simp add: sendCode_def Let_def emit_def formattedPhone_def startsWith_def
           split: outcome.splits)

theorem sendCode_normalizes_phone_witness:
  "setupRecaptcha (clear_outcome issuing_env) (new_outcome issuing_env)
     (emit PreventDefault initial_world) =
     (\<lparr>recaptchaVerifier = Some 0, fresh = 1, trace = [PreventDefault, RecaptchaNew 0]\<rparr>,
      Returns 0) \<and>
   trace (snd (sendCode issuing_env (initial_state\<lparr>phone := ''9876543210''\<rparr>, initial_world))) =
     [PreventDefault, RecaptchaNew 0, SignInWithPhoneNumber ''+19876543210'' (Some 0)]"
  using sendCode_normalizes_phone
          [of issuing_env initial_world
              "\<lparr>recaptchaVerifier = Some 0, fresh = 1, trace = [PreventDefault, RecaptchaNew 0]\<rparr>"
              0 "initial_state\<lparr>phone := ''9876543210''\<rparr>"]
  by (simp add: issuing_env_def setupRecaptcha_def newVerifier_def emit_def
        initial_world_def initial_state_def)

text \<open>
  C5. The phone form is not submitted while the phone number is empty: its input is
  \<^verbatim>\<open>required\<close>, so \<^verbatim>\<open>sendCode\<close> does not run, nothing changes, and a flow in the
  \<open>phone\<close> step stays there.
\<close>

theorem empty_phone_is_not_submitted:
  "phone s = [] \<Longrightarrow>
     dispatch (s, w) (PhoneFormSubmit env) = (s, w) \<and>
     (step s = StepPhone \<longrightarrow> step (fst (dispatch (s, w) (PhoneFormSubmit env))) = StepPhone)"
  by simp

theorem empty_phone_is_not_submitted_witness:
  "phone initial_state = [] \<and> step initial_state = StepPhone \<and>
   dispatch (initial_state, initial_world) (PhoneFormSubmit issuing_env) =
     (initial_state, initial_world) \<and>
   step (fst (dispatch (initial_state, initial_world) (PhoneFormSubmit issuing_env))) = StepPhone"
  using empty_phone_is_not_submitted [of initial_state initial_world issuing_env]
  by (simp add: initial_state_def)

text \<open>
  \<^verbatim>\<open>sendCode\<close> itself does not look at the number it is given; called when the provider
  rejects, it leaves the step as it was.
\<close>

lemma sendCode_rejected_keeps_step:
  "signIn_outcome env = Throws m \<Longrightarrow> step (fst (sendCode env (s, w))) = step s"
  by (simp add: sendCode_def Let_def split: prod.splits outcome.splits)

text \<open>
  C6. When \<^verbatim>\<open>setupRecaptcha\<close> has returned and \<^verbatim>\<open>signInWithPhoneNumber\<close> resolves, the
  flow is in the \<open>code\<close> step and the stored confirmation is the result the provider
  returned, so it is not \<^verbatim>\<open>null\<close>.
\<close>

theorem challenge_issued_enters_code_step:
  assumes "setupRecaptcha (clear_outcome env) (new_outcome env) (emit PreventDefault w) =
             (w1, Returns v)"
    and "signIn_outcome env = Returns result"
  shows "step (fst (sendCode env (s, w))) = StepCode \<and>
         confirmation (fst (sendCode env (s, w))) = Some result \<and>
         confirmation (fst (sendCode env (s, w))) \<noteq> None"
  using assms by (simp add: sendCode_def Let_def)

theorem challenge_issued_enters_code_step_witness:
  "setupRecaptcha (clear_outcome issuing_env) (new_outcome issuing_env)
     (emit PreventDefault initial_world) =
     (\<lparr>recaptchaVerifier = Some 0, fresh = 1, trace = [PreventDefault, RecaptchaNew 0]\<rparr>,
      Returns 0) \<and>
   signIn_outcome issuing_env = Returns 7 \<and>
   step (fst (sendCode issuing_env (initial_state\<lparr>phone := ''9876543210''\<rparr>, initial_world))) =
     StepCode \<and>
   confirmation (fst (sendCode issuing_env
                        (initial_state\<lparr>phone := ''9876543210''\<rparr>, initial_world))) = Some 7"
  using challenge_issued_enters_code_step
          [of issuing_env initial_world
              "\<lparr>recaptchaVerifier = Some 0, fresh = 1, trace = [PreventDefault, RecaptchaNew 0]\<rparr>"
              0 7 "initial_state\<lparr>phone := ''9876543210''\<rparr>"]
  by (simp add: issuing_env_def setupRecaptcha_def newVerifier_def emit_def
        initial_world_def initial_state_def)

subsection \<open>Submitting the code\<close>

text \<open>
  C7. Run while no confirmation is stored, \<^verbatim>\<open>verifyCode\<close> returns at once: the whole
  state of the flow (step, loading, error and the rest) is what it was, the global
  verifier is untouched, and the only call made is \<^verbatim>\<open>preventDefault\<close> on the event, so
  the provider is not contacted.
\<close>

theorem verifyCode_without_handle:
  "confirmation s = None \<Longrightarrow>
     verifyCode env (s, w) = (s, emit PreventDefault w) \<and>
     fst (verifyCode env (s, w)) = s \<and>
     recaptchaVerifier (snd (verifyCode env (s, w))) = recaptchaVerifier w \<and>
     trace (snd (verifyCode env (s, w))) = trace w @ [PreventDefault]"
  by (simp add: verifyCode_def emit_def)

theorem verifyCode_without_handle_witness:
  "confirmation initial_state = None \<and>
   fst (verifyCode confirming_env (initial_state, initial_world)) = initial_state \<and>
   trace (snd (verifyCode confirming_env (initial_state, initial_world))) = [PreventDefault]"
  using verifyCode_without_handle [of initial_state confirming_env initial_world]
  by (simp add: initial_state_def initial_world_def emit_def)

subsection \<open>The verification widget\<close>

text \<open>
  What \<^verbatim>\<open>setupRecaptcha\<close> and the cleanup do with the instance the global refers to:
  the first clears it and then builds and stores a new one, the second clears it.
\<close>

lemma setupRecaptcha_clears_stored:
  "recaptchaVerifier w = Some old \<Longrightarrow>
     setupRecaptcha (Returns ()) (Returns ()) w =
       (\<lparr>recaptchaVerifier = Some (fresh w), fresh = Suc (fresh w),
         trace = trace w @ [RecaptchaClear old, RecaptchaNew (fresh w)]\<rparr>,
        Returns (fresh w))"
  by (simp add: setupRecaptcha_def newVerifier_def emit_def Let_def)

lemma cleanup_clears_stored:
  "recaptchaVerifier w = Some v \<Longrightarrow>
     trace (cleanup (Returns ()) w) = trace w @ [RecaptchaClear v]"
  by (simp add: cleanup_def emit_def)

lemma alive_append: "alive (tr @ es) = foldl alive_step (alive tr) es"
  by (simp add: alive_def)

lemma only_stored_alive_at_most_one:
  "only_stored_alive w \<Longrightarrow> length (alive (trace w)) \<le> 1"
  by (auto simp add: only_stored_alive_def split: option.splits)

lemma emit_only_stored_alive:
  "alive_step (alive (trace w)) e = alive (trace w) \<Longrightarrow>
   only_stored_alive (emit e w) = only_stored_alive w"
  by (simp add: only_stored_alive_def emit_def alive_append split: option.splits)

lemma setupRecaptcha_only_stored_alive:
  assumes "only_stored_alive w"
  shows "only_stored_alive (fst (setupRecaptcha c n w))"
  using assms
  by (auto simp add: only_stored_alive_def setupRecaptcha_def newVerifier_def emit_def
        alive_append Let_def split: option.splits outcome.splits)

lemma cleanup_only_stored_alive:
  "only_stored_alive w \<Longrightarrow> only_stored_alive (cleanup c w)"
  by (auto simp add: only_stored_alive_def cleanup_def emit_def alive_append
        split: option.splits outcome.splits)

lemma cleanup_none_alive:
  assumes "only_stored_alive w"
  shows "alive (trace (cleanup (Returns ()) w)) = []"
  using assms
  by (auto simp add: only_stored_alive_def cleanup_def emit_def alive_append
        split: option.splits)

lemma sendCode_only_stored_alive:
  assumes "only_stored_alive w"
  shows "only_stored_alive (snd (sendCode env (s, w)))"
proof -
  have "only_stored_alive (emit PreventDefault w)"
    using assms by (simp add: emit_only_stored_alive)
  then have "only_stored_alive
               (fst (setupRecaptcha (clear_outcome env) (new_outcome env)
                       (emit PreventDefault w)))"
    by (rule setupRecaptcha_only_stored_alive)
  then show ?thesis
    by (auto simp add: sendCode_def Let_def emit_only_stored_alive
          split: prod.splits outcome.splits)
qed

lemma verifyCode_only_stored_alive:
  "only_stored_alive w \<Longrightarrow> only_stored_alive (snd (verifyCode env (s, w)))"
  by (simp add: verifyCode_def Let_def emit_only_stored_alive
        split: option.splits outcome.splits)

lemma handleProfileSubmit_only_stored_alive:
  "only_stored_alive w \<Longrightarrow> only_stored_alive (snd (handleProfileSubmit fd out (s, w)))"
  by (simp add: handleProfileSubmit_def profile_try_def Let_def emit_only_stored_alive
        split: option.splits outcome.splits fetch_outcome.splits)

lemma handleSubmit_only_stored_alive:
  "only_stored_alive w \<Longrightarrow> only_stored_alive (snd (handleSubmit fd out (s, w)))"
  by (simp add: handleSubmit_def handleProfileSubmit_only_stored_alive emit_only_stored_alive)

lemma dispatch_only_stored_alive:
  assumes "only_stored_alive w" and "ev \<noteq> RecaptchaExpired" and "ev \<noteq> RecaptchaError"
  shows "only_stored_alive (snd (dispatch (s, w) ev))"
  using assms
  by (cases ev)
     (simp_all add: sendCode_only_stored_alive verifyCode_only_stored_alive
        handleSubmit_only_stored_alive cleanup_only_stored_alive)

text \<open>
  As long as the widget never calls back, at most one instance is alive, whatever the
  user does and whatever the collaborators answer.
\<close>

lemma run_only_stored_alive:
  assumes "only_stored_alive (snd sw)"
    and "RecaptchaExpired \<notin> set evs" and "RecaptchaError \<notin> set evs"
  shows "only_stored_alive (snd (run evs sw))"
  using assms
proof (induction evs arbitrary: sw)
  case Nil
  then show ?case by (simp add: run_def)
next
  case (Cons ev evs)
  obtain s w where sw: "sw = (s, w)" by (cases sw)
  from Cons.prems sw have "only_stored_alive (snd (dispatch sw ev))"
    using dispatch_only_stored_alive [of w ev s] by auto
  with Cons.prems have "only_stored_alive (snd (run evs (dispatch sw ev)))"
    using Cons.IH by simp
  then show ?case by (simp add: run_def)
qed

text \<open>
  C8 does not hold of the code. The \<^verbatim>\<open>expired-callback\<close> and the
  \<^verbatim>\<open>error-callback\<close> drop the global reference without clearing the instance, so the
  next \<^verbatim>\<open>setupRecaptcha\<close> finds nothing to clear. After a rejected attempt, an error
  reported by the widget and a second attempt, two instances (0 and 1) are alive; and
  when the page is then unmounted (and \<^verbatim>\<open>clear()\<close> returns), the cleanup clears
  instance 1 only and instance 0 stays alive.
\<close>

theorem widget_leaks_after_callback:
  "alive (trace (snd (run retry_after_widget_error (initial_state, initial_world)))) = [0, 1] \<and>
   alive (trace (snd (run (retry_after_widget_error @ [Remount (Returns ())])
                        (initial_state, initial_world)))) = [0]"
  by (simp add: page_defs input_defs)

subsection \<open>The two inputs\<close>

lemma sendCode_keeps_inputs:
  "phone (fst (sendCode env (s, w))) = phone s \<and> code (fst (sendCode env (s, w))) = code s"
  by (simp add: sendCode_def Let_def split: prod.splits outcome.splits)

lemma verifyCode_keeps_inputs:
  "phone (fst (verifyCode env (s, w))) = phone s \<and> code (fst (verifyCode env (s, w))) = code s"
  by (simp add: verifyCode_def Let_def split: option.splits outcome.splits)

lemma handleProfileSubmit_keeps_inputs:
  "phone (fst (handleProfileSubmit fd out (s, w))) = phone s \<and>
   code (fst (handleProfileSubmit fd out (s, w))) = code s"
  by (simp add: handleProfileSubmit_def split: prod.splits outcome.splits)

lemma strip_non_digits_digits: "list_all is_digit (strip_non_digits v)"
  by (simp add: strip_non_digits_def list_all_iff)

lemma dispatch_keeps_digits:
  assumes "list_all is_digit (phone s)" and "list_all is_digit (code s)"
  shows "list_all is_digit (phone (fst (dispatch (s, w) ev))) \<and>
         list_all is_digit (code (fst (dispatch (s, w) ev)))"
proof (cases ev)
  case (PhoneInput v)
  with assms show ?thesis
    by (simp add: setPhone_onChange_def strip_non_digits_digits)
next
  case (CodeInput v)
  with assms show ?thesis
    by (simp add: setCode_onChange_def strip_non_digits_digits)
next
  case (PhoneFormSubmit env)
  with assms show ?thesis by (simp add: sendCode_keeps_inputs)
next
  case (CodeFormSubmit env)
  with assms show ?thesis by (simp add: verifyCode_keeps_inputs)
next
  case ChangeNumberClick
  with assms show ?thesis by (simp add: changeNumber_def)
next
  case (ProfileFormSubmit fd out)
  with assms show ?thesis by (simp add: handleSubmit_def handleProfileSubmit_keeps_inputs)
next
  case RecaptchaExpired
  with assms show ?thesis by simp
next
  case RecaptchaError
  with assms show ?thesis by simp
next
  case (Remount c)
  then show ?thesis by (simp add: initial_state_def)
qed

lemma run_keeps_digits:
  "list_all is_digit (phone (fst sw)) \<Longrightarrow> list_all is_digit (code (fst sw)) \<Longrightarrow>
   list_all is_digit (phone (fst (run evs sw))) \<and> list_all is_digit (code (fst (run evs sw)))"
proof (induction evs arbitrary: sw)
  case Nil
  then show ?case by (simp add: run_def)
next
  case (Cons ev evs)
  obtain s w where sw: "sw = (s, w)" by (cases sw)
  from Cons.prems sw
  have "list_all is_digit (phone (fst (dispatch sw ev))) \<and>
        list_all is_digit (code (fst (dispatch sw ev)))"
    using dispatch_keeps_digits [of s w ev] by simp
  then have "list_all is_digit (phone (fst (run evs (dispatch sw ev)))) \<and>
             list_all is_digit (code (fst (run evs (dispatch sw ev))))"
    using Cons.IH by blast
  then show ?case by (simp add: run_def)
qed

lemma digits_no_plus: "list_all is_digit p \<Longrightarrow> \<not> startsWith p ''+''"
  by (cases p) (auto simp add: startsWith_def is_digit_def)

text \<open>
  C9. A change of the phone input stores the typed text with every character other than
  \<^verbatim>\<open>0\<close> to \<^verbatim>\<open>9\<close> deleted, and so does a change of the code input. Hence after any
  sequence of events from the initial state (input changes and all the others), the
  stored phone and the stored code hold decimal digits only, and the stored phone does
  not start with \<^verbatim>\<open>+\<close>.
\<close>

theorem inputs_hold_digits_only:
  "list_all is_digit (phone (fst (run evs (initial_state, w)))) \<and>
   list_all is_digit (code (fst (run evs (initial_state, w)))) \<and>
   \<not> startsWith (phone (fst (run evs (initial_state, w)))) ''+'' \<and>
   phone (fst (dispatch (s, w) (PhoneInput v))) =
     (if step s = StepPhone then filter (\<lambda>c. c \<in> set ''0123456789'') v else phone s) \<and>
   code (fst (dispatch (s, w) (CodeInput v))) =
     (if step s = StepCode then filter (\<lambda>c. c \<in> set ''0123456789'') v else code s)"
proof -
  have "list_all is_digit (phone (fst (run evs (initial_state, w)))) \<and>
        list_all is_digit (code (fst (run evs (initial_state, w))))"
    by (rule run_keeps_digits) (simp_all add: initial_state_def)
  moreover have "filter is_digit v = filter (\<lambda>c. c \<in> set ''0123456789'') v"
    by (rule filter_cong) (simp_all add: is_digit_def)
  ultimately show ?thesis
    by (simp add: digits_no_plus setPhone_onChange_def setCode_onChange_def
          strip_non_digits_def)
qed

theorem inputs_hold_digits_only_witness:
  "phone (fst (run [PhoneInput ''+1 (987) 654-3210''] (initial_state, initial_world))) =
     ''19876543210'' \<and>
   list_all is_digit ''19876543210'' \<and> \<not> startsWith ''19876543210'' ''+''"
  using inputs_hold_digits_only
          [of "[PhoneInput ''+1 (987) 654-3210'']" initial_world initial_state "[]"]
  by (simp add: page_defs)

subsection \<open>Signing out of the dashboard\<close>

lemma signed_in_dashboard_eq:
  "signed_in_dashboard =
     \<lparr>userProfile = Some \<lparr>name = ''John Doe'', email = [], address = ''123 Main St'',
                          vehicle = ''Toyota Camry'', kids = ''2''\<rparr>,
      dash_loading = False, dash_error = None\<rparr>"
  by (simp add: signed_in_dashboard_def authStateChanged_def initial_dashboard_def)

text \<open>
  C10. The Sign Out button is on the page shown when the dashboard is neither loading nor
  in error. If \<^verbatim>\<open>signOut\<close> then rejects, the error state becomes
  \<^verbatim>\<open>'Failed to sign out'\<close>, the only call made is \<^verbatim>\<open>signOut\<close> itself (the router is not
  asked to go to the landing page), and the dashboard shows the error panel, which
  carries that message and the Retry button.
\<close>

theorem sign_out_failure_shows_error:
  "render d = ProfilePage p \<Longrightarrow>
     handleSignOut (Throws m) (d, tr) =
       (d\<lparr>dash_error := Some ''Failed to sign out''\<rparr>, tr @ [SignOut]) \<and>
     dash_error (fst (handleSignOut (Throws m) (d, tr))) = Some ''Failed to sign out'' \<and>
     snd (handleSignOut (Throws m) (d, tr)) = tr @ [SignOut] \<and>
     render (fst (handleSignOut (Throws m) (d, tr))) = ErrorPanel ''Failed to sign out''"
  by (auto simp add: handleSignOut_def render_def split: if_splits option.splits)

theorem sign_out_failure_shows_error_witness:
  "render signed_in_dashboard = ProfilePage (userProfile signed_in_dashboard) \<and>
   snd (handleSignOut (Throws ''network'') (signed_in_dashboard, [])) = [SignOut] \<and>
   render (fst (handleSignOut (Throws ''network'') (signed_in_dashboard, []))) =
     ErrorPanel ''Failed to sign out''"
  using sign_out_failure_shows_error
          [of signed_in_dashboard "userProfile signed_in_dashboard" "''network''" "[]"]
  by (simp add: signed_in_dashboard_eq render_def)

end
